theory Spec2Isabelle
  imports Main
begin

section \<open>JavaScript values used by \<open>src/utils/options.ts\<close>\<close>

text \<open>
  Strings are lists of code units. A thrown JavaScript exception is a value of type
  \<open>error\<close>: \<open>Error m\<close> is \<open>new Error(m)\<close>, \<open>TypeError m\<close> is the engine's own
  TypeError (a method called on a value that does not have it, a property read on
  \<open>undefined\<close>). A function that may throw returns \<open>error + 'a\<close>, \<open>Inl\<close> the exception.
\<close>

datatype error = Error string | TypeError string

text \<open>\<open>String(e)\<close> for a thrown exception, as string concatenation computes it.\<close>

fun error_to_string :: "error \<Rightarrow> string" where
  "error_to_string (Error m) = ''Error: '' @ m"
| "error_to_string (TypeError m) = ''TypeError: '' @ m"

text \<open>
  \<open>String.prototype.trim\<close> removes white space and line terminators from both ends.
  On code units below 256 these are TAB, LF, VT, FF, CR, SPACE and NBSP.
\<close>

definition js_whitespace :: "char \<Rightarrow> bool" where
  "js_whitespace c = ((of_char c :: nat) \<in> {9, 10, 11, 12, 13, 32, 160})"

definition trim :: "string \<Rightarrow> string" where
  "trim s = rev (dropWhile js_whitespace (rev (dropWhile js_whitespace s)))"

section \<open>Version files\<close>

text \<open>
  \<open>VersionFile\<close> is \<open>{ path: string, line?: integer }\<close>; an absent \<open>line\<close> is
  \<open>None\<close>. An element of the list given to \<open>normalizeFiles\<close> is a \<open>VersionFile\<close>
  object or a plain string, told apart by \<open>typeof file === 'object'\<close>.
\<close>

record VersionFile =
  path :: string
  line :: "int option"

datatype file_spec = FileObj VersionFile | FileStr string

subsection \<open>The object \<open>filez\<close>\<close>

text \<open>
  \<open>filez\<close> is an ordinary object \<open>{}\<close> used as a dictionary from path to line. It is
  modelled by the list of its own properties in creation order. Three facts of the
  language are part of the model:
  \<^item> assigning to an existing key replaces its value and keeps its position;
  \<^item> \<open>filez["__proto__"] = v\<close> runs the setter inherited from \<open>Object.prototype\<close>, which
    ignores a value that is neither an object nor \<open>null\<close>: no own property is created
    (the values assigned here are numbers or \<open>undefined\<close>);
  \<^item> \<open>Object.keys\<close> lists the keys that are array indices (canonical decimal numerals
    below \<open>2^32 - 1\<close>) first, in ascending numeric order, then the other keys in
    creation order.
\<close>

type_synonym js_object = "(string \<times> int option) list"

fun obj_put :: "js_object \<Rightarrow> string \<Rightarrow> int option \<Rightarrow> js_object" where
  "obj_put [] k v = [(k, v)]"
| "obj_put ((k', v') # ps) k v = (if k' = k then (k, v) # ps else (k', v') # obj_put ps k v)"

definition obj_set :: "js_object \<Rightarrow> string \<Rightarrow> int option \<Rightarrow> js_object" where
  "obj_set obj k v = (if k = ''__proto__'' then obj else obj_put obj k v)"

definition obj_get :: "js_object \<Rightarrow> string \<Rightarrow> int option" where
  "obj_get obj k = (case map_of obj k of None \<Rightarrow> None | Some v \<Rightarrow> v)"

definition is_digit :: "char \<Rightarrow> bool" where
  "is_digit c = (48 \<le> (of_char c :: nat) \<and> (of_char c :: nat) \<le> 57)"

definition digits_value :: "string \<Rightarrow> nat" where
  "digits_value s = foldl (\<lambda>a c. 10 * a + (of_char c - 48)) 0 s"

definition is_array_index :: "string \<Rightarrow> bool" where
  "is_array_index s =
     (s \<noteq> [] \<and> list_all is_digit s \<and> (s = ''0'' \<or> hd s \<noteq> CHR ''0'')
      \<and> digits_value s < 2 ^ 32 - 1)"

definition object_keys :: "js_object \<Rightarrow> string list" where
  "object_keys obj =
     sort_key digits_value (filter is_array_index (map fst obj))
     @ filter (\<lambda>k. \<not> is_array_index k) (map fst obj)"

subsection \<open>\<open>normalizeFiles\<close>\<close>

text \<open>
  The loop body: \<open>filez[file.path] = file.line\<close> for an object,
  \<open>filez[file] = undefined\<close> for a string.
\<close>

fun file_path :: "file_spec \<Rightarrow> string" where
  "file_path (FileObj f) = path f"
| "file_path (FileStr s) = s"

fun file_line :: "file_spec \<Rightarrow> int option" where
  "file_line (FileObj f) = line f"
| "file_line (FileStr s) = None"

definition assign_file :: "js_object \<Rightarrow> file_spec \<Rightarrow> js_object" where
  "assign_file filez file = obj_set filez (file_path file) (file_line file)"

text \<open>
  \<open>filez[cur] ? { path: cur, line: filez[cur] } : { path: cur }\<close>: \<open>undefined\<close> and
  \<open>0\<close> are the falsy values of an optional integer.
\<close>

fun truthy_line :: "int option \<Rightarrow> int option" where
  "truthy_line None = None"
| "truthy_line (Some n) = (if n = 0 then None else Some n)"

definition entry_of :: "js_object \<Rightarrow> string \<Rightarrow> VersionFile" where
  "entry_of filez cur = \<lparr>path = cur, line = truthy_line (obj_get filez cur)\<rparr>"

definition normalizeFiles :: "file_spec list \<Rightarrow> VersionFile list" where
  "normalizeFiles files =
     (let filez = foldl assign_file [] files
      in map (entry_of filez) (object_keys filez))"

section \<open>Options\<close>

text \<open>
  \<open>getSchemeDefinition\<close> and \<open>getSkipOption\<close> are called both on the loosely typed
  object that \<open>getBumperOptions\<close> builds and on a \<open>BumperOptionsFile\<close>. The fields
  they read are the fields of the record \<open>Options\<close>, which both kinds of options object
  extend. A property that is absent (\<open>undefined\<close>) is \<open>None\<close>.

  \<open>skip\<close> is declared boolean, but \<open>getBumperOptions\<close> stores the workflow input, a
  string, in it: the field holds either.
\<close>

datatype skip_value = SkipBool bool | SkipStr string

record Options =
  scheme :: "string option"
  schemeDefinition :: "string option"
  skip :: "skip_value option"
  username :: "string option"
  email :: "string option"

subsection \<open>\<open>getSchemeDefinition\<close>\<close>

text \<open>
  The table \<open>definedSchemes\<close> is the content of \<open>schemes.json\<close>, a parameter here:
  \<open>definedSchemesNames.indexOf(name) !== -1\<close> is \<open>definedSchemes name \<noteq> None\<close>.
  A template literal prints an absent scheme as \<open>undefined\<close>. \<open>!d\<close> holds for an
  absent and for an empty string.
\<close>

definition defined_scheme :: "(string \<rightharpoonup> string) \<Rightarrow> 'a Options_scheme \<Rightarrow> string option" where
  "defined_scheme definedSchemes options =
     (case scheme options of None \<Rightarrow> None | Some name \<Rightarrow> definedSchemes name)"

definition no_definition :: "'a Options_scheme \<Rightarrow> bool" where
  "no_definition options =
     (case schemeDefinition options of None \<Rightarrow> True | Some d \<Rightarrow> d = [] \<or> trim d = [])"

definition getSchemeDefinition :: "(string \<rightharpoonup> string) \<Rightarrow> 'a Options_scheme \<Rightarrow> error + string" where
  "getSchemeDefinition definedSchemes options =
     (if scheme options \<noteq> Some ''custom'' \<and> defined_scheme definedSchemes options \<noteq> None
      then Inr (the (defined_scheme definedSchemes options))
      else if scheme options \<noteq> Some ''custom'' \<and> defined_scheme definedSchemes options = None
      then Inl (Error (''Scheme ''
             @ (case scheme options of None \<Rightarrow> ''undefined'' | Some name \<Rightarrow> name)
             @ '' is not defined.''))
      else if scheme options = Some ''custom'' \<and> no_definition options
      then Inl (Error
        ''Custom scheme has no definition. Scheme Definition must be specified in options'')
      else if no_definition options
      then Inl (Error
        ''Custom scheme has no definition. Scheme Definition must be specified in options'')
      else Inr (the (schemeDefinition options)))"

subsection \<open>\<open>getSkipOption\<close>\<close>

text \<open>\<open>options.skip || false\<close>: the left operand when it is truthy, else \<open>false\<close>.\<close>

fun truthy_skip :: "skip_value \<Rightarrow> bool" where
  "truthy_skip (SkipBool b) = b"
| "truthy_skip (SkipStr s) = (s \<noteq> [])"

definition getSkipOption :: "'a Options_scheme \<Rightarrow> skip_value" where
  "getSkipOption options =
     (case skip options of
        None \<Rightarrow> SkipBool False
      | Some v \<Rightarrow> if truthy_skip v then v else SkipBool False)"

section \<open>Trigger and branches\<close>

text \<open>
  \<open>RuleTrigger\<close> is the union of the string literals \<open>commit\<close>, \<open>pull-request\<close>,
  \<open>pull-request-sync\<close>, \<open>pull-request-other\<close> and \<open>manual\<close>. \<open>getTrigger\<close> reads the
  event name and the payload's action from \<open>github.context\<close>.
\<close>

datatype RuleTrigger = Commit | PullRequest | PullRequestSync | PullRequestOther | Manual

record Context =
  eventName :: string
  payload_action :: "string option"

definition getTrigger :: "Context \<Rightarrow> error + RuleTrigger" where
  "getTrigger context =
     (if eventName context = ''push'' then Inr Commit
      else if eventName context = ''pull_request'' then
        (if payload_action context = Some ''opened'' then Inr PullRequest
         else if payload_action context = Some ''synchronize'' then Inr PullRequestSync
         else Inr PullRequestOther)
      else if eventName context = ''workflow_dispatch'' then Inr Manual
      else Inl (Error ''Invalid trigger event''))"

text \<open>
  The environment variables read through \<open>process.env\<close>. \<open>v || ''\<close> is the empty string
  for an unset and for an empty variable; \<open>substring(n)\<close> drops the first \<open>n\<close> code
  units, whatever they are.
\<close>

record Env =
  GITHUB_HEAD_REF :: "string option"
  GITHUB_BASE_REF :: "string option"
  GITHUB_REF :: "string option"

fun or_empty :: "string option \<Rightarrow> string" where
  "or_empty None = []"
| "or_empty (Some s) = s"

definition getBranchFromTrigger :: "Env \<Rightarrow> RuleTrigger \<Rightarrow> string" where
  "getBranchFromTrigger env trigger =
     (case trigger of
        PullRequest \<Rightarrow> or_empty (GITHUB_HEAD_REF env)
      | _ \<Rightarrow> or_empty (map_option (drop (length ''refs/heads/'')) (GITHUB_REF env)))"

definition getDestBranchFromTrigger :: "Env \<Rightarrow> RuleTrigger \<Rightarrow> string" where
  "getDestBranchFromTrigger env trigger =
     (case trigger of
        PullRequest \<Rightarrow> or_empty (GITHUB_BASE_REF env)
      | _ \<Rightarrow> or_empty (map_option (drop (length ''refs/heads/'')) (GITHUB_REF env)))"

section \<open>State assembly\<close>

text \<open>
  A \<open>BumperOptionsFile\<close> has, besides the fields of \<open>Options\<close>, the version file, the
  list of files and the list of rules. The type of a rule is declared outside this file
  and no function here looks into a rule: it is the type parameter \<open>'r\<close>.
\<close>

record 'r BumperOptionsFile = Options +
  versionFile :: VersionFile
  files :: "file_spec list"
  rules :: "'r list"

definition normalizeOptions ::
  "(string \<rightharpoonup> string) \<Rightarrow> 'r BumperOptionsFile \<Rightarrow> error + 'r BumperOptionsFile" where
  \<comment> \<open>the assignment to \<open>options.schemeDefinition\<close> is the updated record returned;
      the caught exception is thrown again\<close>
  "normalizeOptions definedSchemes options =
     (case getSchemeDefinition definedSchemes options of
        Inl e \<Rightarrow> Inl e
      | Inr d \<Rightarrow> Inr (options\<lparr>schemeDefinition := Some d\<rparr>))"

definition getFiles :: "'r BumperOptionsFile \<Rightarrow> VersionFile list" where
  "getFiles options = normalizeFiles (files options)"

text \<open>
  The functions imported from \<open>./utils\<close> are not part of this file: they are
  parameters, each returning its value or the exception it throws. The regular
  expression returned by \<open>getSchemeRegex\<close> is kept as a string.
\<close>

record 'r Utils =
  getSchemeRegex :: "'r BumperOptionsFile \<Rightarrow> error + string"
  getCurVersion :: "'r BumperOptionsFile \<Rightarrow> error + string"
  getTag :: "'r BumperOptionsFile \<Rightarrow> RuleTrigger \<Rightarrow> string \<Rightarrow> string \<Rightarrow> error + bool"
  bumpVersion :: "'r BumperOptionsFile \<Rightarrow> RuleTrigger \<Rightarrow> string \<Rightarrow> string \<Rightarrow> error + string"

record BumperState =
  curVersion :: string
  newVersion :: string
  state_skip :: skip_value
  schemeRegExp :: string
  state_schemeDefinition :: string
  tag :: bool
  trigger :: RuleTrigger
  branch :: string
  destBranch :: string
  state_files :: "VersionFile list"
  curAppVersion :: string

text \<open>
  \<open>getBumperState\<close> evaluates its declarations in order, each one a call. The model
  returns, with the state or the exception, the list of the calls made, in order;
  a call of \<open>getCurVersion\<close> is recorded with the version file of the options it is
  given. An exception ends the evaluation at the call that throws.
\<close>

datatype call =
    Call_getTrigger
  | Call_getBranchFromTrigger
  | Call_getDestBranchFromTrigger
  | Call_getSkipOption
  | Call_getSchemeRegex
  | Call_getSchemeDefinition
  | Call_getCurVersion VersionFile
  | Call_getTag
  | Call_bumpVersion
  | Call_getFiles

definition call_then ::
  "call \<Rightarrow> error + 'a \<Rightarrow> ('a \<Rightarrow> call list \<times> (error + 'b)) \<Rightarrow> call list \<times> (error + 'b)" where
  "call_then c r k =
     (case r of
        Inl e \<Rightarrow> ([c], Inl e)
      | Inr v \<Rightarrow> (case k v of (cs, res) \<Rightarrow> (c # cs, res)))"

definition getBumperState ::
  "Context \<Rightarrow> Env \<Rightarrow> (string \<rightharpoonup> string) \<Rightarrow> 'r Utils \<Rightarrow> 'r BumperOptionsFile
     \<Rightarrow> call list \<times> (error + BumperState)" where
  "getBumperState context env definedSchemes utils options =
     call_then Call_getTrigger (getTrigger context) (\<lambda>trigger'.
     call_then Call_getBranchFromTrigger (Inr (getBranchFromTrigger env trigger')) (\<lambda>branch'.
     call_then Call_getDestBranchFromTrigger
       (Inr (getDestBranchFromTrigger env trigger')) (\<lambda>destBranch'.
     call_then Call_getSkipOption (Inr (getSkipOption options)) (\<lambda>skip'.
     call_then Call_getSchemeRegex (getSchemeRegex utils options) (\<lambda>schemeRegExp'.
     call_then Call_getSchemeDefinition
       (getSchemeDefinition definedSchemes options) (\<lambda>schemeDefinition'.
     call_then (Call_getCurVersion (versionFile options))
       (getCurVersion utils options) (\<lambda>curVersion'.
     call_then (Call_getCurVersion \<lparr>path = path (versionFile options), line = None\<rparr>)
       (getCurVersion utils
          (options\<lparr>versionFile := \<lparr>path = path (versionFile options), line = None\<rparr>\<rparr>))
       (\<lambda>curAppVersion'.
     call_then Call_getTag (getTag utils options trigger' branch' destBranch') (\<lambda>tag'.
     call_then Call_bumpVersion
       (bumpVersion utils options trigger' branch' destBranch') (\<lambda>newVersion'.
     call_then Call_getFiles (Inr (getFiles options)) (\<lambda>files'.
       ([], Inr \<lparr>curVersion = curVersion', newVersion = newVersion', state_skip = skip',
                 schemeRegExp = schemeRegExp', state_schemeDefinition = schemeDefinition',
                 tag = tag', trigger = trigger', branch = branch', destBranch = destBranch',
                 state_files = files', curAppVersion = curAppVersion'\<rparr>))))))))))))"

section \<open>\<open>getBumperOptions\<close>\<close>

text \<open>
  The workflow inputs, as \<open>core.getInput\<close> returns them: a string, empty when the input
  is not given.
\<close>

record Inputs =
  input_optionsFile :: string
  input_scheme :: string
  input_skip :: string
  input_customScheme :: string
  input_versionFile :: string
  input_files :: string
  input_rules :: string
  input_username :: string
  input_email :: string

text \<open>
  \<open>bumperOptions\<close> is declared \<open>any\<close>: it starts as \<open>{}\<close> or as the parsed options
  file. Its fields are the fields of \<open>Options\<close> and the three below, with the values the
  code tests for:
  \<^item> \<open>versionFile\<close> is absent, a string or a \<open>VersionFile\<close> object;
  \<^item> \<open>files\<close> and \<open>rules\<close> are absent, a value that \<open>Array.isArray\<close> rejects, or an
    array.
  A field of the options file holding a value of another type than these is outside the
  model.
\<close>

datatype 'a js_array = NotArray | Array "'a list"

record 'r AnyOptions = Options +
  any_versionFile :: "file_spec option"
  any_files :: "file_spec js_array option"
  any_rules :: "'r js_array option"

definition empty_options :: "'r AnyOptions" where
  "empty_options =
     \<lparr>scheme = None, schemeDefinition = None, skip = None, username = None, email = None,
      any_versionFile = None, any_files = None, any_rules = None\<rparr>"

text \<open>
  What lies outside the function: whether the options file exists, what parsing it
  gives (\<open>None\<close> when reading or \<open>JSON.parse\<close> throws), and what \<open>JSON.parse\<close> gives on
  the inputs \<open>version-file\<close>, \<open>files\<close> and \<open>rules\<close> (\<open>None\<close> when it throws).
\<close>

record 'r World =
  existsSync :: "string \<Rightarrow> bool"
  parse_options_file :: "string \<Rightarrow> 'r AnyOptions option"
  parse_versionFile :: "string \<Rightarrow> file_spec option"
  parse_files :: "string \<Rightarrow> file_spec js_array option"
  parse_rules :: "string \<Rightarrow> 'r js_array option"

text \<open>\<open>err(message)\<close>: \<open>error += message + '\n'\<close>.\<close>

definition err :: "string \<Rightarrow> string \<Rightarrow> string" where
  "err error message = error @ message @ [CHR 0x0A]"

text \<open>\<open>!s || s.trim() === ""\<close> for a string.\<close>

definition blank :: "string \<Rightarrow> bool" where
  "blank s = (s = [] \<or> trim s = [])"

text \<open>Lines 108 to 117: the options file.\<close>

definition load_options :: "'r World \<Rightarrow> Inputs \<Rightarrow> 'r AnyOptions" where
  "load_options world inputs =
     (if input_optionsFile inputs \<noteq> [] \<and> \<not> existsSync world (input_optionsFile inputs)
      then empty_options
      else if input_optionsFile inputs \<noteq> [] \<and> existsSync world (input_optionsFile inputs)
      then (case parse_options_file world (input_optionsFile inputs) of
              None \<Rightarrow> empty_options
            | Some parsed \<Rightarrow> parsed)
      else empty_options)"

text \<open>
  Each of the following steps takes and returns the pair of the accumulated error
  message and \<open>bumperOptions\<close>. Lines 119 to 124: the scheme.
\<close>

definition merge_scheme :: "Inputs \<Rightarrow> string \<times> 'r AnyOptions \<Rightarrow> string \<times> 'r AnyOptions" where
  "merge_scheme inputs = (\<lambda>(error, bumperOptions).
     if input_scheme inputs \<noteq> []
     then (error, bumperOptions\<lparr>scheme := Some (input_scheme inputs)\<rparr>)
     else if (case scheme bumperOptions of None \<Rightarrow> True | Some s \<Rightarrow> blank s)
     then (err error ''Scheme is not defined in option file or workflow input.'',
           bumperOptions)
     else (error, bumperOptions))"

text \<open>Lines 126 to 134: the custom scheme and the resolution of the definition.\<close>

definition merge_customScheme ::
  "Inputs \<Rightarrow> string \<times> 'r AnyOptions \<Rightarrow> string \<times> 'r AnyOptions" where
  "merge_customScheme inputs = (\<lambda>(error, bumperOptions).
     if input_customScheme inputs \<noteq> [] \<and> trim (input_customScheme inputs) \<noteq> []
     then (error, bumperOptions\<lparr>scheme := Some ''custom'',
                                 schemeDefinition := Some (input_customScheme inputs)\<rparr>)
     else (error, bumperOptions))"

definition resolve_scheme ::
  "(string \<rightharpoonup> string) \<Rightarrow> string \<times> 'r AnyOptions \<Rightarrow> string \<times> 'r AnyOptions" where
  "resolve_scheme definedSchemes = (\<lambda>(error, bumperOptions).
     case getSchemeDefinition definedSchemes bumperOptions of
       Inr d \<Rightarrow> (error, bumperOptions\<lparr>schemeDefinition := Some d\<rparr>)
     | Inl e \<Rightarrow> (err error (error_to_string e), bumperOptions))"

text \<open>
  Lines 136 to 149: the version file. In the last disjunct of line 145 the code calls
  \<open>trim\<close> on \<open>bumperOptions.versionFile\<close>: a \<open>VersionFile\<close> object is truthy and has no
  such method, so the call throws a TypeError, outside any \<open>try\<close>.
  \<open>normalizeFiles([f])[0]\<close> is \<open>undefined\<close> when the list returned is empty.
\<close>

definition first_file :: "VersionFile list \<Rightarrow> file_spec option" where
  "first_file vs = (case vs of [] \<Rightarrow> None | v # _ \<Rightarrow> Some (FileObj v))"

definition merge_versionFile ::
  "'r World \<Rightarrow> Inputs \<Rightarrow> string \<times> 'r AnyOptions \<Rightarrow> error + string \<times> 'r AnyOptions" where
  "merge_versionFile world inputs = (\<lambda>(error, bumperOptions).
     if input_versionFile inputs \<noteq> [] \<and> trim (input_versionFile inputs) \<noteq> []
     then (case parse_versionFile world (input_versionFile inputs) of
             Some parsed \<Rightarrow> Inr (error, bumperOptions\<lparr>any_versionFile := Some parsed\<rparr>)
           | None \<Rightarrow> Inr (error, bumperOptions\<lparr>any_versionFile :=
                         Some (FileObj \<lparr>path = input_versionFile inputs, line = None\<rparr>)\<rparr>))
     else (case any_versionFile bumperOptions of
             None \<Rightarrow>
               Inr (err error ''Version file is not defined in option file or workflow input.'',
                    bumperOptions)
           | Some (FileStr s) \<Rightarrow>
               if blank s
               then Inr (err error
                       ''Version file is not defined in option file or workflow input.'',
                     bumperOptions)
               else Inr (error, bumperOptions\<lparr>any_versionFile :=
                           first_file (normalizeFiles [FileStr s])\<rparr>)
           | Some (FileObj v) \<Rightarrow>
               Inl (TypeError ''bumperOptions.versionFile.trim is not a function'')))"

text \<open>
  Lines 151 to 164: the files. The list given to \<open>normalizeFiles\<close> starts with
  \<open>bumperOptions.versionFile\<close>; when that is \<open>undefined\<close>, the loop of \<open>normalizeFiles\<close>
  assigns \<open>filez[undefined]\<close>, the property named \<open>undefined\<close>, as for the string.
\<close>

definition versionFile_element :: "'r AnyOptions \<Rightarrow> file_spec" where
  "versionFile_element bumperOptions =
     (case any_versionFile bumperOptions of None \<Rightarrow> FileStr ''undefined'' | Some f \<Rightarrow> f)"

definition with_versionFile :: "'r AnyOptions \<Rightarrow> file_spec list \<Rightarrow> file_spec js_array" where
  "with_versionFile bumperOptions filesArray =
     Array (map FileObj (normalizeFiles (versionFile_element bumperOptions # filesArray)))"

definition merge_files ::
  "'r World \<Rightarrow> Inputs \<Rightarrow> string \<times> 'r AnyOptions \<Rightarrow> string \<times> 'r AnyOptions" where
  "merge_files world inputs = (\<lambda>(error, bumperOptions).
     if input_files inputs \<noteq> [] \<and> trim (input_files inputs) \<noteq> []
     then (case parse_files world (input_files inputs) of
             None \<Rightarrow> (err error ''Files not in JSON format'', bumperOptions)
           | Some NotArray \<Rightarrow>
               (err error ''Files should be in array stringified JSON format'', bumperOptions)
           | Some (Array filesArray) \<Rightarrow>
               (error, bumperOptions\<lparr>any_files :=
                         Some (with_versionFile bumperOptions filesArray)\<rparr>))
     else (case any_files bumperOptions of
             Some (Array filesArray) \<Rightarrow>
               (error, bumperOptions\<lparr>any_files :=
                         Some (with_versionFile bumperOptions filesArray)\<rparr>)
           | _ \<Rightarrow>
               (err error ''Files are not defined in option file or workflow input.'',
                bumperOptions)))"

text \<open>Lines 166 to 179: the rules.\<close>

definition merge_rules ::
  "'r World \<Rightarrow> Inputs \<Rightarrow> string \<times> 'r AnyOptions \<Rightarrow> string \<times> 'r AnyOptions" where
  "merge_rules world inputs = (\<lambda>(error, bumperOptions).
     if input_rules inputs \<noteq> [] \<and> trim (input_rules inputs) \<noteq> []
     then (case parse_rules world (input_rules inputs) of
             None \<Rightarrow> (err error ''Rules not in JSON format'', bumperOptions)
           | Some NotArray \<Rightarrow>
               (err error ''Rules should be in array stringified JSON format'', bumperOptions)
           | Some (Array rulesArray) \<Rightarrow>
               (error, bumperOptions\<lparr>any_rules := Some (Array rulesArray)\<rparr>))
     else (case any_rules bumperOptions of
             Some (Array rulesArray) \<Rightarrow> (error, bumperOptions)
           | _ \<Rightarrow>
               (err error ''Rules are not defined in option file or workflow input.'',
                bumperOptions)))"

text \<open>Lines 181 to 189: skip, user name, email, and the result.\<close>

definition merge_identity :: "Inputs \<Rightarrow> 'r AnyOptions \<Rightarrow> 'r AnyOptions" where
  "merge_identity inputs bumperOptions =
     (let o1 = (if input_skip inputs \<noteq> []
                then bumperOptions\<lparr>skip := Some (SkipStr (input_skip inputs))\<rparr>
                else bumperOptions);
          o2 = (if input_username inputs \<noteq> []
                then o1\<lparr>username := Some (input_username inputs)\<rparr> else o1)
      in if input_email inputs \<noteq> [] then o2\<lparr>email := Some (input_email inputs)\<rparr> else o2)"

definition finish :: "Inputs \<Rightarrow> string \<times> 'r AnyOptions \<Rightarrow> error + 'r AnyOptions" where
  "finish inputs = (\<lambda>(error, bumperOptions).
     let merged = merge_identity inputs bumperOptions
     in if error \<noteq> [] then Inl (Error error) else Inr merged)"

definition getBumperOptions ::
  "(string \<rightharpoonup> string) \<Rightarrow> 'r World \<Rightarrow> Inputs \<Rightarrow> error + 'r AnyOptions" where
  "getBumperOptions definedSchemes world inputs =
     (case merge_versionFile world inputs
             (resolve_scheme definedSchemes
               (merge_customScheme inputs
                 (merge_scheme inputs ([], load_options world inputs)))) of
        Inl e \<Rightarrow> Inl e
      | Inr checked \<Rightarrow> finish inputs (merge_rules world inputs (merge_files world inputs checked)))"

text \<open>
  \<open>return bumperOptions as BumperOptionsFile\<close>: the cast checks nothing when the program
  runs. The object is a \<open>BumperOptionsFile\<close> as declared when its version file is a
  \<open>VersionFile\<close> object and its files and rules are arrays; \<open>asBumperOptionsFile\<close> is that view.
\<close>

definition asBumperOptionsFile :: "'r AnyOptions \<Rightarrow> 'r BumperOptionsFile option" where
  "asBumperOptionsFile bumperOptions =
     (case (any_versionFile bumperOptions, any_files bumperOptions, any_rules bumperOptions) of
        (Some (FileObj v), Some (Array filesArray), Some (Array rulesArray)) \<Rightarrow>
          Some \<lparr>scheme = scheme bumperOptions,
                schemeDefinition = schemeDefinition bumperOptions,
                skip = skip bumperOptions, username = username bumperOptions,
                email = email bumperOptions,
                versionFile = v, files = filesArray, rules = rulesArray\<rparr>
      | _ \<Rightarrow> None)"

section \<open>A concrete run\<close>

text \<open>
  The values at which the theorems below are instantiated: a table with one preset
  scheme, a push to the branch \<open>main\<close>, and stand-ins for the functions of \<open>./utils\<close>
  (the reader answers \<open>1.2.3\<close> for the whole file and \<open>0.9.0\<close> when a line is pinned);
  options before and after \<open>normalizeOptions\<close>.
\<close>

abbreviation example_schemes :: "string \<rightharpoonup> string" where
  "example_schemes \<equiv> [''semantic'' \<mapsto> ''major.minor.build'']"

abbreviation example_context :: Context where
  "example_context \<equiv> \<lparr>eventName = ''push'', payload_action = None\<rparr>"

abbreviation example_env :: Env where
  "example_env \<equiv> \<lparr>GITHUB_HEAD_REF = None, GITHUB_BASE_REF = None,
                    GITHUB_REF = Some ''refs/heads/main''\<rparr>"

abbreviation example_utils :: "unit Utils" where
  "example_utils \<equiv>
     \<lparr>getSchemeRegex = (\<lambda>options. Inr ''[0-9]+.[0-9]+.[0-9]+''),
      getCurVersion = (\<lambda>options. case line (versionFile options) of
                          None \<Rightarrow> Inr ''1.2.3'' | Some n \<Rightarrow> Inr ''0.9.0''),
      getTag = (\<lambda>options t b d. Inr False),
      bumpVersion = (\<lambda>options t b d. Inr ''0.9.1'')\<rparr>"

abbreviation example_options :: "unit BumperOptionsFile" where
  "example_options \<equiv>
     \<lparr>scheme = Some ''semantic'', schemeDefinition = None, skip = None,
      username = None, email = None,
      versionFile = \<lparr>path = ''package.json'', line = Some 3\<rparr>,
      files = [FileObj \<lparr>path = ''package.json'', line = Some 3\<rparr>], rules = []\<rparr>"

abbreviation normalized_options :: "unit BumperOptionsFile" where
  "normalized_options \<equiv>
     \<lparr>scheme = Some ''semantic'', schemeDefinition = Some ''major.minor.build'',
      skip = None, username = None, email = None,
      versionFile = \<lparr>path = ''package.json'', line = Some 3\<rparr>,
      files = [FileObj \<lparr>path = ''package.json'', line = Some 3\<rparr>], rules = []\<rparr>"

text \<open>
  A run configured by workflow inputs alone (no options file), with the input \<open>skip\<close>
  set to the string \<open>false\<close>; \<open>package.json\<close> is not JSON, \<open>[]\<close> parses to the empty
  array.
\<close>

abbreviation example_world :: "unit World" where
  "example_world \<equiv>
     \<lparr>existsSync = (\<lambda>p. False),
      parse_options_file = (\<lambda>p. None),
      parse_versionFile = (\<lambda>s. None),
      parse_files = (\<lambda>s. if s = ''[]'' then Some (Array []) else None),
      parse_rules = (\<lambda>s. if s = ''[]'' then Some (Array []) else None)\<rparr>"

abbreviation example_inputs :: Inputs where
  "example_inputs \<equiv>
     \<lparr>input_optionsFile = [], input_scheme = ''semantic'', input_skip = ''false'',
      input_customScheme = [], input_versionFile = ''package.json'', input_files = ''[]'',
      input_rules = ''[]'', input_username = [], input_email = []\<rparr>"

abbreviation example_result :: "unit AnyOptions" where
  "example_result \<equiv>
     \<lparr>scheme = Some ''semantic'', schemeDefinition = Some ''major.minor.build'',
      skip = Some (SkipStr ''false''), username = None, email = None,
      any_versionFile = Some (FileObj \<lparr>path = ''package.json'', line = None\<rparr>),
      any_files = Some (Array [FileObj \<lparr>path = ''package.json'', line = None\<rparr>]),
      any_rules = Some (Array [])\<rparr>"

abbreviation example_checked :: "unit BumperOptionsFile" where
  "example_checked \<equiv>
     \<lparr>scheme = Some ''semantic'', schemeDefinition = Some ''major.minor.build'',
      skip = Some (SkipStr ''false''), username = None, email = None,
      versionFile = \<lparr>path = ''package.json'', line = None\<rparr>,
      files = [FileObj \<lparr>path = ''package.json'', line = None\<rparr>], rules = []\<rparr>"

text \<open>
  A run configured by an options file alone, which gives the scheme and the version file
  as an object, and neither files nor rules.
\<close>

abbreviation options_file_inputs :: Inputs where
  "options_file_inputs \<equiv>
     \<lparr>input_optionsFile = ''options.json'', input_scheme = [], input_skip = [],
      input_customScheme = [], input_versionFile = [], input_files = [],
      input_rules = [], input_username = [], input_email = []\<rparr>"

abbreviation options_file_world :: "file_spec \<Rightarrow> unit World" where
  "options_file_world vf \<equiv>
     \<lparr>existsSync = (\<lambda>p. True),
      parse_options_file = (\<lambda>p. Some
        \<lparr>scheme = Some ''semantic'', schemeDefinition = None, skip = None,
         username = None, email = None,
         any_versionFile = Some vf, any_files = None, any_rules = None\<rparr>),
      parse_versionFile = (\<lambda>s. None),
      parse_files = (\<lambda>s. None),
      parse_rules = (\<lambda>s. None)\<rparr>"

section \<open>Properties of \<open>normalizeFiles\<close>\<close>

lemma obj_put_keys: "fst ` set (obj_put obj k v) = insert k (fst ` set obj)"
  by (induction obj k v rule: obj_put.induct) auto

lemma obj_put_distinct: "distinct (map fst obj) \<Longrightarrow> distinct (map fst (obj_put obj k v))"
  by (induction obj k v rule: obj_put.induct) (auto simp: obj_put_keys)

lemma obj_put_map_of: "map_of (obj_put obj k v) = (map_of obj)(k \<mapsto> v)"
  by (induction obj k v rule: obj_put.induct) (auto simp: fun_eq_iff)

lemma assign_file_distinct:
  "distinct (map fst obj) \<Longrightarrow> distinct (map fst (assign_file obj f))"
  by (simp add: assign_file_def obj_set_def obj_put_distinct)

lemma foldl_assign_distinct:
  "distinct (map fst obj) \<Longrightarrow> distinct (map fst (foldl assign_file obj fs))"
  by (induction fs arbitrary: obj) (simp_all add: assign_file_distinct)

lemma foldl_assign_keys:
  "fst ` set (foldl assign_file obj fs)
     = fst ` set obj \<union> (file_path ` set fs - {''__proto__''})"
proof (induction fs arbitrary: obj)
  case Nil
  then show ?case by simp
next
  case (Cons f fs)
  show ?case
    unfolding foldl_Cons Cons.IH
    by (auto simp: assign_file_def obj_set_def obj_put_keys)
qed

lemma object_keys_set: "set (object_keys obj) = fst ` set obj"
  by (auto simp: object_keys_def)

lemma object_keys_distinct: "distinct (map fst obj) \<Longrightarrow> distinct (object_keys obj)"
  by (auto simp: object_keys_def)

lemma obj_get_assign:
  "obj_get (assign_file obj f) p =
     (if file_path f = p \<and> p \<noteq> ''__proto__'' then file_line f else obj_get obj p)"
  by (auto simp: obj_get_def assign_file_def obj_set_def obj_put_map_of)

text \<open>After the loop, a key holds the value of the last assignment made to it.\<close>

lemma obj_get_foldl:
  "p \<noteq> ''__proto__'' \<Longrightarrow> obj_get (foldl assign_file obj fs) p =
     (case filter (\<lambda>f. file_path f = p) fs of [] \<Rightarrow> obj_get obj p
      | _ \<Rightarrow> file_line (last (filter (\<lambda>f. file_path f = p) fs)))"
proof (induction fs rule: rev_induct)
  case Nil
  then show ?case by simp
next
  case (snoc f fs)
  then show ?case
    by (simp add: obj_get_assign split: list.splits)
qed

lemma normalizeFiles_map_path:
  "map path (normalizeFiles fs) = object_keys (foldl assign_file [] fs)"
  by (simp add: normalizeFiles_def Let_def entry_of_def comp_def)

lemma normalizeFiles_paths_distinct: "distinct (map path (normalizeFiles fs))"
  by (simp add: normalizeFiles_map_path object_keys_distinct foldl_assign_distinct)

lemma normalizeFiles_paths:
  "set (map path (normalizeFiles fs)) = file_path ` set fs - {''__proto__''}"
  by (simp add: normalizeFiles_map_path object_keys_set foldl_assign_keys)

lemma filter_eq_distinct: "distinct xs \<Longrightarrow> p \<in> set xs \<Longrightarrow> filter (\<lambda>k. k = p) xs = [p]"
  by (induction xs) (auto simp: filter_empty_conv)

lemmas normalizeFiles_eval =
  normalizeFiles_def assign_file_def obj_set_def object_keys_def is_array_index_def
  is_digit_def digits_value_def entry_of_def obj_get_def

text \<open>
  The example of the specification: three occurrences of the path \<open>a\<close> give one entry,
  with the line of the last occurrence.
\<close>

lemma normalizeFiles_example:
  "normalizeFiles [FileObj \<lparr>path = ''a'', line = Some 5\<rparr>, FileStr ''a'',
                   FileObj \<lparr>path = ''a'', line = Some 10\<rparr>]
     = [\<lparr>path = ''a'', line = Some 10\<rparr>]"
  by (simp add: normalizeFiles_eval)

text \<open>
  Claim C1, as stated: when a path first appears with an explicit line and later without
  one, the output entry keeps the earlier line. The code does not: the later
  \<open>filez[file] = undefined\<close> overwrites the recorded line, and the entry has no line.
\<close>

theorem normalizeFiles_undefined_overwrites:
  "normalizeFiles [FileObj \<lparr>path = ''a'', line = Some 5\<rparr>, FileStr ''a'']
     = [\<lparr>path = ''a'', line = None\<rparr>]
   \<and> \<lparr>path = ''a'', line = Some 5\<rparr>
       \<notin> set (normalizeFiles [FileObj \<lparr>path = ''a'', line = Some 5\<rparr>, FileStr ''a''])"
  by (simp add: normalizeFiles_eval)

text \<open>
  Claim C1, amended: for a path that occurs in the input (other than \<open>__proto__\<close>), the
  output has exactly one entry, and its line is the line of the last occurrence of that
  path, kept when it is truthy: an occurrence without a line overwrites an earlier
  explicit line.
\<close>

theorem normalizeFiles_last_occurrence_wins:
  assumes "p \<in> file_path ` set fs" and "p \<noteq> ''__proto__''"
  shows "filter (\<lambda>e. path e = p) (normalizeFiles fs)
           = [\<lparr>path = p,
               line = truthy_line (file_line (last (filter (\<lambda>f. file_path f = p) fs)))\<rparr>]"
proof -
  let ?filez = "foldl assign_file [] fs"
  have keys: "filter (\<lambda>k. k = p) (object_keys ?filez) = [p]"
    using assms
    by (intro filter_eq_distinct object_keys_distinct foldl_assign_distinct)
       (simp_all add: object_keys_set foldl_assign_keys)
  have "filter (\<lambda>f. file_path f = p) fs \<noteq> []"
    using assms(1) by (auto simp: filter_empty_conv)
  then have val: "obj_get ?filez p
      = file_line (last (filter (\<lambda>f. file_path f = p) fs))"
    using assms(2) by (simp add: obj_get_foldl split: list.splits)
  have "filter (\<lambda>e. path e = p) (normalizeFiles fs)
      = map (entry_of ?filez) (filter (\<lambda>k. k = p) (object_keys ?filez))"
    by (simp add: normalizeFiles_def Let_def filter_map comp_def entry_of_def)
  then show ?thesis
    by (simp add: keys val entry_of_def)
qed

theorem normalizeFiles_last_occurrence_wins_witness:
  "filter (\<lambda>e. path e = ''a'')
     (normalizeFiles [FileObj \<lparr>path = ''a'', line = Some 5\<rparr>, FileStr ''b'', FileStr ''a''])
     = [\<lparr>path = ''a'', line = None\<rparr>]"
  using normalizeFiles_last_occurrence_wins
    [of "''a''" "[FileObj \<lparr>path = ''a'', line = Some 5\<rparr>, FileStr ''b'', FileStr ''a'']"]
  by simp

text \<open>
  Claim C8: each distinct path of the input occurs exactly once in the output. The
  output never repeats a path (\<open>normalizeFiles_paths_distinct\<close>) and the example of the
  claim holds (\<open>normalizeFiles_example\<close>), but the path \<open>__proto__\<close> is lost: the
  assignment to \<open>filez["__proto__"]\<close> creates no property, so the path occurs zero
  times in the output.
\<close>

theorem normalizeFiles_proto_path_lost:
  "normalizeFiles [FileStr ''__proto__''] = []
   \<and> normalizeFiles [FileStr ''a'', FileObj \<lparr>path = ''__proto__'', line = Some 3\<rparr>]
       = [\<lparr>path = ''a'', line = None\<rparr>]"
  by (simp add: normalizeFiles_eval)

text \<open>
  Claim C9: every entry of the output either carries a truthy (non-zero) line or has no
  line; a recorded line \<open>0\<close> is dropped, so \<open>{path: "a", line: 0}\<close> normalizes to
  \<open>{path: "a"}\<close>.
\<close>

theorem normalizeFiles_lines_truthy:
  "(\<forall>e \<in> set (normalizeFiles fs). line e = None \<or> (\<exists>n. line e = Some n \<and> n \<noteq> 0))
   \<and> normalizeFiles [FileObj \<lparr>path = ''a'', line = Some 0\<rparr>] = [\<lparr>path = ''a'', line = None\<rparr>]"
proof -
  have "truthy_line v = None \<or> (\<exists>n. truthy_line v = Some n \<and> n \<noteq> 0)" for v
    by (cases v) auto
  then have "\<forall>e \<in> set (normalizeFiles fs). line e = None \<or> (\<exists>n. line e = Some n \<and> n \<noteq> 0)"
    by (auto simp: normalizeFiles_def Let_def entry_of_def)
  moreover have "normalizeFiles [FileObj \<lparr>path = ''a'', line = Some 0\<rparr>]
      = [\<lparr>path = ''a'', line = None\<rparr>]"
    by (simp add: normalizeFiles_eval)
  ultimately show ?thesis by blast
qed

theorem normalizeFiles_lines_truthy_witness:
  "\<lparr>path = ''b'', line = Some 3\<rparr>
     \<in> set (normalizeFiles [FileObj \<lparr>path = ''a'', line = Some 0\<rparr>,
                             FileObj \<lparr>path = ''b'', line = Some 3\<rparr>])
   \<and> (line \<lparr>path = ''b'', line = Some 3\<rparr> = None
      \<or> (\<exists>n. line \<lparr>path = ''b'', line = Some 3\<rparr> = Some n \<and> n \<noteq> 0))"
proof -
  let ?fs = "[FileObj \<lparr>path = ''a'', line = Some 0\<rparr>, FileObj \<lparr>path = ''b'', line = Some 3\<rparr>]"
  have mem: "\<lparr>path = ''b'', line = Some 3\<rparr> \<in> set (normalizeFiles ?fs)"
    by (simp add: normalizeFiles_eval)
  from normalizeFiles_lines_truthy [of ?fs] have
    "\<forall>e \<in> set (normalizeFiles ?fs). line e = None \<or> (\<exists>n. line e = Some n \<and> n \<noteq> 0)"
    by (rule conjunct1)
  from bspec [OF this mem] mem show ?thesis by (rule_tac conjI)
qed

section \<open>Properties of scheme resolution, trigger and branches\<close>

text \<open>
  Claim C3: for the scheme \<open>custom\<close>, a definition that is absent or blank after
  trimming (the empty string included) makes \<open>getSchemeDefinition\<close> throw, never
  return, and the exception thrown is the same \<open>Error\<close> with the same message in both
  cases, whatever the table of preset schemes.
\<close>

theorem getSchemeDefinition_custom_blank:
  assumes "scheme options = Some ''custom''"
    and "schemeDefinition options = None
         \<or> (\<exists>d. schemeDefinition options = Some d \<and> trim d = [])"
  shows "getSchemeDefinition definedSchemes options
    = Inl (Error
        ''Custom scheme has no definition. Scheme Definition must be specified in options'')"
  using assms by (auto simp: getSchemeDefinition_def no_definition_def)

theorem getSchemeDefinition_custom_blank_witness:
  "getSchemeDefinition [''semantic'' \<mapsto> ''major.minor.build'']
     \<lparr>scheme = Some ''custom'', schemeDefinition = Some [], skip = None,
      username = None, email = None\<rparr>
    = Inl (Error
        ''Custom scheme has no definition. Scheme Definition must be specified in options'')
  \<and> getSchemeDefinition [''semantic'' \<mapsto> ''major.minor.build'']
     \<lparr>scheme = Some ''custom'', schemeDefinition = None, skip = None,
      username = None, email = None\<rparr>
    = Inl (Error
        ''Custom scheme has no definition. Scheme Definition must be specified in options'')
  \<and> getSchemeDefinition [''semantic'' \<mapsto> ''major.minor.build'']
     \<lparr>scheme = Some ''custom'', schemeDefinition = Some ''  '', skip = None,
      username = None, email = None\<rparr>
    = Inl (Error
        ''Custom scheme has no definition. Scheme Definition must be specified in options'')"
  using
    getSchemeDefinition_custom_blank
      [of "\<lparr>scheme = Some ''custom'', schemeDefinition = Some [], skip = None,
             username = None, email = None\<rparr>" "[''semantic'' \<mapsto> ''major.minor.build'']"]
    getSchemeDefinition_custom_blank
      [of "\<lparr>scheme = Some ''custom'', schemeDefinition = None, skip = None,
             username = None, email = None\<rparr>" "[''semantic'' \<mapsto> ''major.minor.build'']"]
    getSchemeDefinition_custom_blank
      [of "\<lparr>scheme = Some ''custom'', schemeDefinition = Some ''  '', skip = None,
             username = None, email = None\<rparr>" "[''semantic'' \<mapsto> ''major.minor.build'']"]
  by (simp add: trim_def js_whitespace_def)

text \<open>
  Claim C5: \<open>getTrigger\<close> maps \<open>push\<close> to \<open>commit\<close>; \<open>pull_request\<close> to
  \<open>pull-request\<close> when the action is \<open>opened\<close>, to \<open>pull-request-sync\<close> when it is
  \<open>synchronize\<close> and to \<open>pull-request-other\<close> otherwise; \<open>workflow_dispatch\<close> to
  \<open>manual\<close>; and for every other event name it throws the error
  \<open>Invalid trigger event\<close>.
\<close>

theorem getTrigger_classification:
  "(eventName context = ''push'' \<longrightarrow> getTrigger context = Inr Commit)
 \<and> (eventName context = ''pull_request'' \<and> payload_action context = Some ''opened''
      \<longrightarrow> getTrigger context = Inr PullRequest)
 \<and> (eventName context = ''pull_request'' \<and> payload_action context = Some ''synchronize''
      \<longrightarrow> getTrigger context = Inr PullRequestSync)
 \<and> (eventName context = ''pull_request'' \<and> payload_action context \<noteq> Some ''opened''
      \<and> payload_action context \<noteq> Some ''synchronize''
      \<longrightarrow> getTrigger context = Inr PullRequestOther)
 \<and> (eventName context = ''workflow_dispatch'' \<longrightarrow> getTrigger context = Inr Manual)
 \<and> (eventName context \<noteq> ''push'' \<and> eventName context \<noteq> ''pull_request''
      \<and> eventName context \<noteq> ''workflow_dispatch''
      \<longrightarrow> getTrigger context = Inl (Error ''Invalid trigger event''))"
  by (simp add: getTrigger_def)

theorem getTrigger_classification_witness:
  "getTrigger \<lparr>eventName = ''push'', payload_action = None\<rparr> = Inr Commit
 \<and> getTrigger \<lparr>eventName = ''pull_request'', payload_action = Some ''opened''\<rparr>
      = Inr PullRequest
 \<and> getTrigger \<lparr>eventName = ''pull_request'', payload_action = Some ''synchronize''\<rparr>
      = Inr PullRequestSync
 \<and> getTrigger \<lparr>eventName = ''pull_request'', payload_action = Some ''closed''\<rparr>
      = Inr PullRequestOther
 \<and> getTrigger \<lparr>eventName = ''workflow_dispatch'', payload_action = None\<rparr> = Inr Manual
 \<and> getTrigger \<lparr>eventName = ''pull_request_review_comment'', payload_action = Some ''created''\<rparr>
      = Inl (Error ''Invalid trigger event'')"
  using
    getTrigger_classification [of "\<lparr>eventName = ''push'', payload_action = None\<rparr>"]
    getTrigger_classification
      [of "\<lparr>eventName = ''pull_request'', payload_action = Some ''opened''\<rparr>"]
    getTrigger_classification
      [of "\<lparr>eventName = ''pull_request'', payload_action = Some ''synchronize''\<rparr>"]
    getTrigger_classification
      [of "\<lparr>eventName = ''pull_request'', payload_action = Some ''closed''\<rparr>"]
    getTrigger_classification
      [of "\<lparr>eventName = ''workflow_dispatch'', payload_action = None\<rparr>"]
    getTrigger_classification
      [of "\<lparr>eventName = ''pull_request_review_comment'', payload_action = Some ''created''\<rparr>"]
  by simp




section \<open>Properties of state assembly\<close>

lemma call_then_Inr:
  "call_then c r k = (tr, Inr y) \<longleftrightarrow>
     (\<exists>v cs. r = Inr v \<and> k v = (cs, Inr y) \<and> tr = c # cs)"
  by (auto simp: call_then_def split: sum.splits prod.splits)

text \<open>
  A call of \<open>getBumperState\<close> that returns a state has made every call of its
  declaration list, once and in order, and each field of the state is the value of its
  call.
\<close>

lemma getBumperState_Inr:
  assumes "getBumperState context env definedSchemes utils options = (tr, Inr st)"
  shows "getTrigger context = Inr (trigger st)
    \<and> branch st = getBranchFromTrigger env (trigger st)
    \<and> destBranch st = getDestBranchFromTrigger env (trigger st)
    \<and> state_skip st = getSkipOption options
    \<and> getSchemeRegex utils options = Inr (schemeRegExp st)
    \<and> getSchemeDefinition definedSchemes options = Inr (state_schemeDefinition st)
    \<and> getCurVersion utils options = Inr (curVersion st)
    \<and> getCurVersion utils
         (options\<lparr>versionFile := \<lparr>path = path (versionFile options), line = None\<rparr>\<rparr>)
        = Inr (curAppVersion st)
    \<and> getTag utils options (trigger st) (branch st) (destBranch st) = Inr (tag st)
    \<and> bumpVersion utils options (trigger st) (branch st) (destBranch st) = Inr (newVersion st)
    \<and> state_files st = getFiles options
    \<and> tr = [Call_getTrigger, Call_getBranchFromTrigger, Call_getDestBranchFromTrigger,
             Call_getSkipOption, Call_getSchemeRegex, Call_getSchemeDefinition,
             Call_getCurVersion (versionFile options),
             Call_getCurVersion \<lparr>path = path (versionFile options), line = None\<rparr>,
             Call_getTag, Call_bumpVersion, Call_getFiles]"
  using assms unfolding getBumperState_def call_then_Inr
  by auto

text \<open>Conversely, it returns a state when each call that may throw returns.\<close>

lemma getBumperState_returns:
  assumes "getTrigger context = Inr t"
    and "getSchemeRegex utils options = Inr r"
    and "getSchemeDefinition definedSchemes options = Inr d"
    and "getCurVersion utils options = Inr c"
    and "getCurVersion utils
           (options\<lparr>versionFile := \<lparr>path = path (versionFile options), line = None\<rparr>\<rparr>)
         = Inr a"
    and "getTag utils options t (getBranchFromTrigger env t) (getDestBranchFromTrigger env t)
         = Inr g"
    and "bumpVersion utils options t (getBranchFromTrigger env t)
           (getDestBranchFromTrigger env t) = Inr n"
  shows "\<exists>tr st. getBumperState context env definedSchemes utils options = (tr, Inr st)"
  by (simp add: getBumperState_def call_then_def assms)

lemmas run_eval =
  getBumperState_def call_then_def getTrigger_def getBranchFromTrigger_def
  getDestBranchFromTrigger_def getSkipOption_def getSchemeDefinition_def defined_scheme_def
  no_definition_def getFiles_def normalizeFiles_eval normalizeOptions_def

lemma example_run:
  "getBumperState example_context example_env example_schemes example_utils
     normalized_options
   = ([Call_getTrigger, Call_getBranchFromTrigger, Call_getDestBranchFromTrigger,
       Call_getSkipOption, Call_getSchemeRegex, Call_getSchemeDefinition,
       Call_getCurVersion \<lparr>path = ''package.json'', line = Some 3\<rparr>,
       Call_getCurVersion \<lparr>path = ''package.json'', line = None\<rparr>,
       Call_getTag, Call_bumpVersion, Call_getFiles],
      Inr \<lparr>curVersion = ''0.9.0'', newVersion = ''0.9.1'', state_skip = SkipBool False,
           schemeRegExp = ''[0-9]+.[0-9]+.[0-9]+'',
           state_schemeDefinition = ''major.minor.build'', tag = False, trigger = Commit,
           branch = ''main'', destBranch = ''main'',
           state_files = [\<lparr>path = ''package.json'', line = Some 3\<rparr>],
           curAppVersion = ''1.2.3''\<rparr>)"
  by (simp add: run_eval)

text \<open>
  Claim C2, as stated: after \<open>normalizeOptions\<close> has run, no later step invokes the
  resolver of the scheme definition again. In the code \<open>getBumperState\<close> calls
  \<open>getSchemeDefinition\<close> itself: on options that \<open>normalizeOptions\<close> has returned, the
  calls it makes include one of the resolver.
\<close>

theorem getBumperState_resolves_again:
  "normalizeOptions example_schemes example_options
     = Inr normalized_options
   \<and> Call_getSchemeDefinition
       \<in> set (fst (getBumperState example_context example_env example_schemes example_utils
                     normalized_options))"
  by (simp add: run_eval)

text \<open>
  Claim C2, amended: \<open>normalizeOptions\<close> resolves the scheme definition and stores the
  result in \<open>options.schemeDefinition\<close>: when \<open>getSchemeDefinition\<close> returns \<open>d\<close> on the
  options it returns the options with \<open>schemeDefinition\<close> set to \<open>d\<close> and nothing else
  changed, and when \<open>getSchemeDefinition\<close> throws it throws the same exception. State
  assembly does not read the stored value: every \<open>getBumperState\<close> that returns a state
  has called \<open>getSchemeDefinition\<close> once more, and on options that \<open>normalizeOptions\<close>
  has returned this call returns the stored definition, which is the definition of the
  state; on such options \<open>getBumperState\<close> returns a state whenever the trigger is
  recognised and the calls into \<open>./utils\<close> return.
\<close>

theorem normalizeOptions_stores_definition:
  "(\<forall>d. getSchemeDefinition definedSchemes options = Inr d \<longrightarrow>
        normalizeOptions definedSchemes options = Inr (options\<lparr>schemeDefinition := Some d\<rparr>))
   \<and> (\<forall>e. getSchemeDefinition definedSchemes options = Inl e \<longrightarrow>
        normalizeOptions definedSchemes options = Inl e)
   \<and> (normalizeOptions definedSchemes options = Inr options' \<longrightarrow>
        (\<exists>d. getSchemeDefinition definedSchemes options = Inr d
           \<and> options' = options\<lparr>schemeDefinition := Some d\<rparr>
           \<and> schemeDefinition options' = Some d
           \<and> getSchemeDefinition definedSchemes options' = Inr d
           \<and> (\<forall>context env utils tr st.
                 getBumperState context env definedSchemes utils options' = (tr, Inr st)
                 \<longrightarrow> count_list tr Call_getSchemeDefinition = 1
                    \<and> state_schemeDefinition st = d)
           \<and> (\<forall>context env utils t r c a g n.
                 getTrigger context = Inr t
                 \<and> getSchemeRegex utils options' = Inr r
                 \<and> getCurVersion utils options' = Inr c
                 \<and> getCurVersion utils
                       (options'\<lparr>versionFile :=
                          \<lparr>path = path (versionFile options'), line = None\<rparr>\<rparr>) = Inr a
                 \<and> getTag utils options' t (getBranchFromTrigger env t)
                       (getDestBranchFromTrigger env t) = Inr g
                 \<and> bumpVersion utils options' t (getBranchFromTrigger env t)
                       (getDestBranchFromTrigger env t) = Inr n
                 \<longrightarrow> (\<exists>tr st.
                       getBumperState context env definedSchemes utils options' = (tr, Inr st)
                       \<and> count_list tr Call_getSchemeDefinition = 1
                       \<and> state_schemeDefinition st = d))))"
proof (intro conjI allI impI)
  show "normalizeOptions definedSchemes options = Inr (options\<lparr>schemeDefinition := Some d\<rparr>)"
    if "getSchemeDefinition definedSchemes options = Inr d" for d
    using that by (simp add: normalizeOptions_def)
  show "normalizeOptions definedSchemes options = Inl e"
    if "getSchemeDefinition definedSchemes options = Inl e" for e
    using that by (simp add: normalizeOptions_def)
next
  assume returned: "normalizeOptions definedSchemes options = Inr options'"
  then obtain d where d: "getSchemeDefinition definedSchemes options = Inr d"
    and o': "options' = options\<lparr>schemeDefinition := Some d\<rparr>"
    by (auto simp: normalizeOptions_def split: sum.splits)
  have stored: "schemeDefinition options' = Some d"
    by (simp add: o')
  have again: "getSchemeDefinition definedSchemes options' = Inr d"
  proof (cases "scheme options = Some ''custom''")
    case True
    with d have "\<not> no_definition options" and "schemeDefinition options = Some d"
      by (auto simp: getSchemeDefinition_def no_definition_def split: if_splits option.splits)
    with True show ?thesis
      by (simp add: o' getSchemeDefinition_def no_definition_def)
  next
    case False
    with d show ?thesis
      by (simp add: o' getSchemeDefinition_def defined_scheme_def split: if_splits)
  qed
  have once: "count_list tr Call_getSchemeDefinition = 1 \<and> state_schemeDefinition st = d"
    if "getBumperState ctx env definedSchemes utils options' = (tr, Inr st)"
    for ctx env and utils :: "'a Utils" and tr st
    using getBumperState_Inr [OF that] again by simp
  have returns: "\<exists>tr st. getBumperState ctx env definedSchemes utils options' = (tr, Inr st)
        \<and> count_list tr Call_getSchemeDefinition = 1 \<and> state_schemeDefinition st = d"
    if "getTrigger ctx = Inr t
        \<and> getSchemeRegex utils options' = Inr r
        \<and> getCurVersion utils options' = Inr c
        \<and> getCurVersion utils
              (options'\<lparr>versionFile :=
                 \<lparr>path = path (versionFile options'), line = None\<rparr>\<rparr>) = Inr a
        \<and> getTag utils options' t (getBranchFromTrigger env t)
              (getDestBranchFromTrigger env t) = Inr g
        \<and> bumpVersion utils options' t (getBranchFromTrigger env t)
              (getDestBranchFromTrigger env t) = Inr n"
    for ctx env and utils :: "'a Utils" and t r c a g n
  proof -
    from that again obtain tr st
      where "getBumperState ctx env definedSchemes utils options' = (tr, Inr st)"
      using getBumperState_returns [of ctx t utils options' r definedSchemes d c a env g n]
      by blast
    with once show ?thesis
      by blast
  qed
  from d o' stored again once returns
  show "\<exists>d. getSchemeDefinition definedSchemes options = Inr d
      \<and> options' = options\<lparr>schemeDefinition := Some d\<rparr>
      \<and> schemeDefinition options' = Some d
      \<and> getSchemeDefinition definedSchemes options' = Inr d
      \<and> (\<forall>context env utils tr st.
            getBumperState context env definedSchemes utils options' = (tr, Inr st)
            \<longrightarrow> count_list tr Call_getSchemeDefinition = 1
               \<and> state_schemeDefinition st = d)
      \<and> (\<forall>context env utils t r c a g n.
            getTrigger context = Inr t
            \<and> getSchemeRegex utils options' = Inr r
            \<and> getCurVersion utils options' = Inr c
            \<and> getCurVersion utils
                  (options'\<lparr>versionFile :=
                     \<lparr>path = path (versionFile options'), line = None\<rparr>\<rparr>) = Inr a
            \<and> getTag utils options' t (getBranchFromTrigger env t)
                  (getDestBranchFromTrigger env t) = Inr g
            \<and> bumpVersion utils options' t (getBranchFromTrigger env t)
                  (getDestBranchFromTrigger env t) = Inr n
            \<longrightarrow> (\<exists>tr st.
                  getBumperState context env definedSchemes utils options' = (tr, Inr st)
                  \<and> count_list tr Call_getSchemeDefinition = 1
                  \<and> state_schemeDefinition st = d))"
    by blast
qed

theorem normalizeOptions_stores_definition_witness:
  "getSchemeDefinition example_schemes example_options = Inr ''major.minor.build''
   \<and> normalizeOptions example_schemes example_options = Inr normalized_options
   \<and> schemeDefinition normalized_options = Some ''major.minor.build''
   \<and> getSchemeDefinition example_schemes normalized_options = Inr ''major.minor.build''
   \<and> count_list
        (fst (getBumperState example_context example_env example_schemes example_utils
                normalized_options))
        Call_getSchemeDefinition = 1
   \<and> map_sum id state_schemeDefinition
        (snd (getBumperState example_context example_env example_schemes example_utils
                normalized_options)) = Inr ''major.minor.build''"
proof -
  note claim = normalizeOptions_stores_definition
    [of example_schemes example_options normalized_options]
  have resolved: "getSchemeDefinition example_schemes example_options
      = Inr ''major.minor.build''"
    by (simp add: getSchemeDefinition_def defined_scheme_def)
  from claim resolved
  have run: "normalizeOptions example_schemes example_options = Inr normalized_options"
    by simp
  from claim [THEN conjunct2, THEN conjunct2, rule_format, OF run] obtain d where
    d: "schemeDefinition normalized_options = Some d"
    and again: "getSchemeDefinition example_schemes normalized_options = Inr d"
    and state: "\<forall>context env (utils :: unit Utils) tr st.
          getBumperState context env example_schemes utils normalized_options = (tr, Inr st)
          \<longrightarrow> count_list tr Call_getSchemeDefinition = 1 \<and> state_schemeDefinition st = d"
    by (elim exE conjE)
  from d have "d = ''major.minor.build''"
    by simp
  with resolved run d again state [rule_format, OF example_run] show ?thesis
    by (simp add: example_run)
qed

text \<open>
  Claim C6: a call of \<open>getBumperState\<close> that returns a state has read the current
  version twice, in this order: \<open>curVersion\<close> is what \<open>getCurVersion\<close> returns on the
  options as configured, line included, and \<open>curAppVersion\<close> is what it returns on the
  same options with the version file reduced to its path. Changing the line of the
  version file leaves \<open>curAppVersion\<close> as it is, and there are runs in which the two
  versions differ.
\<close>

theorem getBumperState_reads_version_twice:
  "(getBumperState context env definedSchemes utils options = (tr, Inr st) \<longrightarrow>
      getCurVersion utils options = Inr (curVersion st)
    \<and> getCurVersion utils
        (options\<lparr>versionFile := \<lparr>path = path (versionFile options), line = None\<rparr>\<rparr>)
        = Inr (curAppVersion st)
    \<and> filter (\<lambda>c. \<exists>v. c = Call_getCurVersion v) tr
        = [Call_getCurVersion (versionFile options),
           Call_getCurVersion \<lparr>path = path (versionFile options), line = None\<rparr>]
    \<and> (\<forall>l tr' st'.
          getBumperState context env definedSchemes utils
            (options\<lparr>versionFile := (versionFile options)\<lparr>line := l\<rparr>\<rparr>) = (tr', Inr st')
          \<longrightarrow> curAppVersion st' = curAppVersion st))
   \<and> (\<exists>tr' st'.
        getBumperState example_context example_env example_schemes example_utils
          normalized_options = (tr', Inr st')
        \<and> curVersion st' \<noteq> curAppVersion st')"
proof (intro conjI impI allI)
  assume run: "getBumperState context env definedSchemes utils options = (tr, Inr st)"
  note facts = getBumperState_Inr [OF run]
  from facts show "getCurVersion utils options = Inr (curVersion st)"
    by simp
  from facts show app: "getCurVersion utils
      (options\<lparr>versionFile := \<lparr>path = path (versionFile options), line = None\<rparr>\<rparr>)
      = Inr (curAppVersion st)"
    by simp
  from facts show "filter (\<lambda>c. \<exists>v. c = Call_getCurVersion v) tr
      = [Call_getCurVersion (versionFile options),
         Call_getCurVersion \<lparr>path = path (versionFile options), line = None\<rparr>]"
    by simp
  fix l tr' st'
  assume "getBumperState context env definedSchemes utils
      (options\<lparr>versionFile := (versionFile options)\<lparr>line := l\<rparr>\<rparr>) = (tr', Inr st')"
  from getBumperState_Inr [OF this] app show "curAppVersion st' = curAppVersion st"
    by simp
next
  show "\<exists>tr' st'.
      getBumperState example_context example_env example_schemes example_utils
        normalized_options = (tr', Inr st')
      \<and> curVersion st' \<noteq> curAppVersion st'"
    unfolding example_run by simp
qed

theorem getBumperState_reads_version_twice_witness:
  "getCurVersion example_utils
     normalized_options = Inr ''0.9.0''
   \<and> getCurVersion example_utils
       (normalized_options\<lparr>versionFile := \<lparr>path = ''package.json'', line = None\<rparr>\<rparr>)
       = Inr ''1.2.3''
   \<and> filter (\<lambda>c. \<exists>v. c = Call_getCurVersion v)
        (fst (getBumperState example_context example_env example_schemes example_utils
               normalized_options))
       = [Call_getCurVersion \<lparr>path = ''package.json'', line = Some 3\<rparr>,
          Call_getCurVersion \<lparr>path = ''package.json'', line = None\<rparr>]"
  using getBumperState_reads_version_twice
    [of example_context example_env example_schemes example_utils
        normalized_options
        "fst (getBumperState example_context example_env example_schemes example_utils
               normalized_options)"
        "\<lparr>curVersion = ''0.9.0'', newVersion = ''0.9.1'', state_skip = SkipBool False,
           schemeRegExp = ''[0-9]+.[0-9]+.[0-9]+'',
           state_schemeDefinition = ''major.minor.build'', tag = False, trigger = Commit,
           branch = ''main'', destBranch = ''main'',
           state_files = [\<lparr>path = ''package.json'', line = Some 3\<rparr>],
           curAppVersion = ''1.2.3''\<rparr>"]
  by (simp add: example_run)

section \<open>Properties of \<open>getBumperOptions\<close>\<close>

lemma finish_skip:
  assumes "finish inputs (error, bumperOptions) = Inr result"
    and "input_skip inputs \<noteq> []"
  shows "skip result = Some (SkipStr (input_skip inputs))"
  using assms by (auto simp: finish_def merge_identity_def Let_def split: if_splits)

lemma getBumperOptions_skip:
  assumes "getBumperOptions definedSchemes world inputs = Inr result"
    and "input_skip inputs \<noteq> []"
  shows "skip result = Some (SkipStr (input_skip inputs))"
proof -
  from assms(1) obtain error bumperOptions
    where "finish inputs (error, bumperOptions) = Inr result"
    by (auto simp: getBumperOptions_def split: sum.splits)
       (metis surj_pair)
  then show ?thesis
    using assms(2) by (rule finish_skip)
qed

lemma asBumperOptionsFile_skip:
  "asBumperOptionsFile bumperOptions = Some options \<Longrightarrow> skip options = skip bumperOptions"
  by (auto simp: asBumperOptionsFile_def split: option.splits file_spec.splits js_array.splits)

lemmas options_eval =
  getBumperOptions_def load_options_def empty_options_def merge_scheme_def
  merge_customScheme_def resolve_scheme_def merge_versionFile_def merge_files_def
  merge_rules_def finish_def merge_identity_def err_def blank_def trim_def js_whitespace_def
  with_versionFile_def versionFile_element_def first_file_def asBumperOptionsFile_def
  getSchemeDefinition_def defined_scheme_def no_definition_def normalizeFiles_eval

lemma example_options_run:
  "getBumperOptions example_schemes example_world example_inputs = Inr example_result"
  by (simp add: options_eval)

lemma example_cast: "asBumperOptionsFile example_result = Some example_checked"
  by (simp add: asBumperOptionsFile_def)

lemma example_checked_run:
  "getBumperState example_context example_env example_schemes example_utils example_checked
   = ([Call_getTrigger, Call_getBranchFromTrigger, Call_getDestBranchFromTrigger,
       Call_getSkipOption, Call_getSchemeRegex, Call_getSchemeDefinition,
       Call_getCurVersion \<lparr>path = ''package.json'', line = None\<rparr>,
       Call_getCurVersion \<lparr>path = ''package.json'', line = None\<rparr>,
       Call_getTag, Call_bumpVersion, Call_getFiles],
      Inr \<lparr>curVersion = ''1.2.3'', newVersion = ''0.9.1'', state_skip = SkipStr ''false'',
           schemeRegExp = ''[0-9]+.[0-9]+.[0-9]+'',
           state_schemeDefinition = ''major.minor.build'', tag = False, trigger = Commit,
           branch = ''main'', destBranch = ''main'',
           state_files = [\<lparr>path = ''package.json'', line = None\<rparr>],
           curAppVersion = ''1.2.3''\<rparr>)"
  by (simp add: run_eval)

text \<open>
  A run configured by workflow inputs (a preset scheme, a version file, files and rules
  that parse to arrays) returns, whatever the options file holds, and a non-empty input
  \<open>skip\<close> is the \<open>skip\<close> of the object returned.
\<close>

lemma getBumperOptions_returns:
  assumes skip_given: "input_skip inputs \<noteq> []"
    and preset: "input_scheme inputs \<noteq> []" "input_scheme inputs \<noteq> ''custom''"
      "definedSchemes (input_scheme inputs) \<noteq> None"
    and no_custom: "blank (input_customScheme inputs)"
    and version: "\<not> blank (input_versionFile inputs)"
    and files_given: "\<not> blank (input_files inputs)"
      "parse_files world (input_files inputs) = Some (Array filesArray)"
    and rules_given: "\<not> blank (input_rules inputs)"
      "parse_rules world (input_rules inputs) = Some (Array rulesArray)"
  shows "\<exists>bumperOptions. getBumperOptions definedSchemes world inputs = Inr bumperOptions
      \<and> skip bumperOptions = Some (SkipStr (input_skip inputs))"
proof -
  obtain d where d: "definedSchemes (input_scheme inputs) = Some d"
    using preset(3) by blast
  let ?loaded = "load_options world inputs"
  let ?named = "?loaded\<lparr>scheme := Some (input_scheme inputs)\<rparr>"
  let ?resolved = "?named\<lparr>schemeDefinition := Some d\<rparr>"
  have s1: "merge_scheme inputs ([], ?loaded) = ([], ?named)"
    using preset(1) by (simp add: merge_scheme_def)
  have s2: "merge_customScheme inputs ([], ?named) = ([], ?named)"
    using no_custom by (auto simp: merge_customScheme_def blank_def)
  have "getSchemeDefinition definedSchemes ?named = Inr d"
    using preset(2) d by (simp add: getSchemeDefinition_def defined_scheme_def)
  then have s3: "resolve_scheme definedSchemes ([], ?named) = ([], ?resolved)"
    by (simp add: resolve_scheme_def)
  obtain versioned where s4: "merge_versionFile world inputs ([], ?resolved) = Inr ([], versioned)"
    using version
    by (cases "parse_versionFile world (input_versionFile inputs)")
       (auto simp: merge_versionFile_def blank_def)
  obtain listed where s5: "merge_files world inputs ([], versioned) = ([], listed)"
    using files_given by (auto simp: merge_files_def blank_def)
  obtain ruled where s6: "merge_rules world inputs ([], listed) = ([], ruled)"
    using rules_given by (auto simp: merge_rules_def blank_def)
  have "getBumperOptions definedSchemes world inputs = finish inputs ([], ruled)"
    by (simp add: getBumperOptions_def s1 s2 s3 s4 s5 s6)
  then have "getBumperOptions definedSchemes world inputs = Inr (merge_identity inputs ruled)"
    by (simp add: finish_def)
  moreover have "skip (merge_identity inputs ruled) = Some (SkipStr (input_skip inputs))"
    using skip_given by (simp add: merge_identity_def Let_def)
  ultimately show ?thesis
    by blast
qed

text \<open>
  Claim C10: \<open>getSkipOption\<close> returns \<open>options.skip\<close> when it is truthy and \<open>false\<close> when
  it is unset. \<open>getBumperOptions\<close> stores a non-empty input \<open>skip\<close> as the string it is:
  a run configured by workflow inputs returns an object whose \<open>skip\<close> is that string, and
  so does every other run that returns. In the state assembled from the options
  returned, \<open>skip\<close> is that string, which is truthy, whatever it spells.
\<close>

theorem skip_input_is_truthy:
  "(skip options = None \<longrightarrow> getSkipOption options = SkipBool False)
   \<and> (\<forall>v. skip options = Some v \<and> truthy_skip v \<longrightarrow> getSkipOption options = v)
   \<and> (input_skip inputs \<noteq> [] \<and> input_scheme inputs \<noteq> []
       \<and> input_scheme inputs \<noteq> ''custom'' \<and> definedSchemes (input_scheme inputs) \<noteq> None
       \<and> blank (input_customScheme inputs) \<and> \<not> blank (input_versionFile inputs)
       \<and> \<not> blank (input_files inputs)
       \<and> (\<exists>filesArray. parse_files world (input_files inputs) = Some (Array filesArray))
       \<and> \<not> blank (input_rules inputs)
       \<and> (\<exists>rulesArray. parse_rules world (input_rules inputs) = Some (Array rulesArray))
       \<longrightarrow> (\<exists>returned. getBumperOptions definedSchemes world inputs = Inr returned
              \<and> skip returned = Some (SkipStr (input_skip inputs))
              \<and> truthy_skip (getSkipOption returned)))
   \<and> (getBumperOptions definedSchemes world inputs = Inr bumperOptions
       \<and> input_skip inputs \<noteq> [] \<longrightarrow>
         skip bumperOptions = Some (SkipStr (input_skip inputs))
       \<and> (\<forall>checked context env utils tr st.
             asBumperOptionsFile bumperOptions = Some checked
             \<and> getBumperState context env definedSchemes utils checked = (tr, Inr st)
             \<longrightarrow> state_skip st = SkipStr (input_skip inputs)
                \<and> truthy_skip (state_skip st)))"
proof -
  have unset: "getSkipOption options = SkipBool False" if "skip options = None"
    using that by (simp add: getSkipOption_def)
  have truthy: "getSkipOption options = v" if "skip options = Some v \<and> truthy_skip v" for v
    using that by (simp add: getSkipOption_def)
  have returns: "\<exists>returned. getBumperOptions definedSchemes world inputs = Inr returned
        \<and> skip returned = Some (SkipStr (input_skip inputs))
        \<and> truthy_skip (getSkipOption returned)"
    if configured: "input_skip inputs \<noteq> [] \<and> input_scheme inputs \<noteq> []
       \<and> input_scheme inputs \<noteq> ''custom'' \<and> definedSchemes (input_scheme inputs) \<noteq> None
       \<and> blank (input_customScheme inputs) \<and> \<not> blank (input_versionFile inputs)
       \<and> \<not> blank (input_files inputs)
       \<and> (\<exists>filesArray. parse_files world (input_files inputs) = Some (Array filesArray))
       \<and> \<not> blank (input_rules inputs)
       \<and> (\<exists>rulesArray. parse_rules world (input_rules inputs) = Some (Array rulesArray))"
  proof -
    from configured obtain filesArray rulesArray
      where "parse_files world (input_files inputs) = Some (Array filesArray)"
        and "parse_rules world (input_rules inputs) = Some (Array rulesArray)"
      by blast
    with configured obtain returned
      where r: "getBumperOptions definedSchemes world inputs = Inr returned"
        "skip returned = Some (SkipStr (input_skip inputs))"
      using getBumperOptions_returns [of inputs definedSchemes world filesArray rulesArray]
      by blast
    moreover from r(2) configured have "truthy_skip (getSkipOption returned)"
      by (simp add: getSkipOption_def)
    ultimately show ?thesis
      by blast
  qed
  have stored: "skip bumperOptions = Some (SkipStr (input_skip inputs))"
    if "getBumperOptions definedSchemes world inputs = Inr bumperOptions
        \<and> input_skip inputs \<noteq> []"
    using that by (blast intro: getBumperOptions_skip)
  have state: "state_skip st = SkipStr (input_skip inputs) \<and> truthy_skip (state_skip st)"
    if run: "getBumperOptions definedSchemes world inputs = Inr bumperOptions
        \<and> input_skip inputs \<noteq> []"
      and assembled: "asBumperOptionsFile bumperOptions = Some checked
        \<and> getBumperState ctx env definedSchemes utils checked = (tr, Inr st)"
    for checked :: "'b BumperOptionsFile" and ctx env and utils :: "'b Utils" and tr st
  proof -
    from assembled have "skip checked = skip bumperOptions"
      and "state_skip st = getSkipOption checked"
      using asBumperOptionsFile_skip getBumperState_Inr by blast+
    with stored [OF run] run show ?thesis
      by (simp add: getSkipOption_def)
  qed
  from unset truthy returns stored state show ?thesis
    by blast
qed

theorem skip_input_is_truthy_witness:
  "getSkipOption example_options = SkipBool False
   \<and> getSkipOption example_checked = SkipStr ''false''
   \<and> getBumperOptions example_schemes example_world example_inputs = Inr example_result
   \<and> map_sum id skip (getBumperOptions example_schemes example_world example_inputs)
       = Inr (Some (SkipStr ''false''))
   \<and> map_option skip (asBumperOptionsFile example_result) = Some (Some (SkipStr ''false''))
   \<and> map_sum id state_skip
        (snd (getBumperState example_context example_env example_schemes example_utils
                example_checked)) = Inr (SkipStr ''false'')
   \<and> truthy_skip (SkipStr ''false'')"
proof -
  note claim = skip_input_is_truthy
    [of _ example_inputs example_schemes example_world example_result]
  have unset: "getSkipOption example_options = SkipBool False"
    using claim [of example_options] by simp
  have truthy: "getSkipOption example_checked = SkipStr ''false''"
    using claim [of example_checked] by simp
  have "\<exists>returned. getBumperOptions example_schemes example_world example_inputs = Inr returned
      \<and> skip returned = Some (SkipStr ''false'')
      \<and> truthy_skip (getSkipOption returned)"
    using claim [of example_options] by (simp add: blank_def trim_def js_whitespace_def)
  then have stored: "map_sum id skip
      (getBumperOptions example_schemes example_world example_inputs)
      = Inr (Some (SkipStr ''false''))"
    by auto
  have "state_skip st = SkipStr ''false'' \<and> truthy_skip (state_skip st)"
    if "getBumperState example_context example_env example_schemes example_utils
          example_checked = (tr, Inr st)" for tr st
    using claim [of example_options] example_options_run example_cast that
    by simp
  from this [OF example_checked_run] unset truthy stored show ?thesis
    by (simp add: example_checked_run example_options_run example_cast)
qed

text \<open>
  Every missing field is reported when nothing is configured: the run ends with one
  \<open>Error\<close> whose message holds the five messages, one per line.
\<close>

lemma getBumperOptions_nothing_configured:
  "getBumperOptions example_schemes example_world
     \<lparr>input_optionsFile = [], input_scheme = [], input_skip = [],
      input_customScheme = [], input_versionFile = [], input_files = [],
      input_rules = [], input_username = [], input_email = []\<rparr>
   = Inl (Error
      (''Scheme is not defined in option file or workflow input.'' @ [CHR 0x0A]
       @ ''Error: Scheme undefined is not defined.'' @ [CHR 0x0A]
       @ ''Version file is not defined in option file or workflow input.'' @ [CHR 0x0A]
       @ ''Files are not defined in option file or workflow input.'' @ [CHR 0x0A]
       @ ''Rules are not defined in option file or workflow input.'' @ [CHR 0x0A]))"
  by (simp add: options_eval)

text \<open>
  With an options file that gives the version file as a string and neither files nor
  rules, both missing fields are reported in one \<open>Error\<close>.
\<close>

lemma getBumperOptions_string_versionFile:
  "getBumperOptions example_schemes (options_file_world (FileStr ''package.json''))
     options_file_inputs
   = Inl (Error
      (''Files are not defined in option file or workflow input.'' @ [CHR 0x0A]
       @ ''Rules are not defined in option file or workflow input.'' @ [CHR 0x0A]))"
  by (simp add: options_eval)

text \<open>
  Claim C4: when several required fields are missing or invalid, \<open>getBumperOptions\<close>
  checks all fields and ends with a single error that reports all of them. With the same
  options file but the version file given as an object \<open>{path: "package.json"}\<close>, the
  files and the rules are missing as before, but the run ends at line 145 with a
  TypeError: neither field is checked and neither is reported.
\<close>

theorem getBumperOptions_object_versionFile:
  "getBumperOptions example_schemes
     (options_file_world (FileObj \<lparr>path = ''package.json'', line = None\<rparr>))
     options_file_inputs
   = Inl (TypeError ''bumperOptions.versionFile.trim is not a function'')"
  by (simp add: options_eval)

text \<open>
  The only exception other than the accumulated \<open>Error\<close> is this TypeError, and it is
  thrown exactly when no \<open>version-file\<close> input is given and the options file gives the
  version file as an object.
\<close>

lemma checked_versionFile:
  "any_versionFile (snd (resolve_scheme definedSchemes
       (merge_customScheme inputs (merge_scheme inputs (error, bumperOptions)))))
     = any_versionFile bumperOptions"
  by (simp add: resolve_scheme_def merge_customScheme_def merge_scheme_def
      split: sum.splits prod.splits)

lemma merge_versionFile_TypeError:
  "(\<exists>m. merge_versionFile world inputs acc = Inl (TypeError m)) \<longleftrightarrow>
     blank (input_versionFile inputs) \<and> (\<exists>v. any_versionFile (snd acc) = Some (FileObj v))"
  by (cases acc)
     (auto simp: merge_versionFile_def blank_def split: option.splits file_spec.splits)

lemma finish_throws: "finish inputs acc = Inl e \<Longrightarrow> \<exists>m. e = Error m"
  by (cases acc) (auto simp: finish_def Let_def split: if_splits)

lemma getBumperOptions_TypeError_iff:
  "(\<exists>m. getBumperOptions definedSchemes world inputs = Inl (TypeError m)) \<longleftrightarrow>
     blank (input_versionFile inputs)
     \<and> (\<exists>v. any_versionFile (load_options world inputs) = Some (FileObj v))"
proof -
  let ?acc = "resolve_scheme definedSchemes
      (merge_customScheme inputs (merge_scheme inputs ([], load_options world inputs)))"
  have "(\<exists>m. getBumperOptions definedSchemes world inputs = Inl (TypeError m))
      \<longleftrightarrow> (\<exists>m. merge_versionFile world inputs ?acc = Inl (TypeError m))"
    by (auto simp: getBumperOptions_def split: sum.splits dest: finish_throws)
  then show ?thesis
    by (simp only: merge_versionFile_TypeError checked_versionFile)
qed

end
